theory Spec2Isabelle
  imports Complex_Main "HOL-Library.Sublist"
begin

section \<open>Strings\<close>

text \<open>
  JavaScript strings are modelled as lists of 8-bit characters. Every character class and
  every length test of the scripts is over ASCII; the few non-ASCII literals of the source
  (flags, a c-cedilla, a triangle) are written as their UTF-8 bytes, which is how the
  scripts write them to disk.
\<close>

fun startsWith :: "string \<Rightarrow> string \<Rightarrow> bool" where
  "startsWith s [] = True"
| "startsWith [] (p # ps) = False"
| "startsWith (c # cs) (p # ps) = (if c = p then startsWith cs ps else False)"


fun str_includes :: "string \<Rightarrow> string \<Rightarrow> bool" where
  "str_includes [] p = (p = [])"
| "str_includes (c # cs) p = (if startsWith (c # cs) p then True else str_includes cs p)"


definition is_lower :: "char \<Rightarrow> bool" where
  "is_lower c = (97 \<le> (of_char c :: nat) \<and> (of_char c :: nat) \<le> 122)"

definition is_upper :: "char \<Rightarrow> bool" where
  "is_upper c = (65 \<le> (of_char c :: nat) \<and> (of_char c :: nat) \<le> 90)"

definition is_digit :: "char \<Rightarrow> bool" where
  "is_digit c = (48 \<le> (of_char c :: nat) \<and> (of_char c :: nat) \<le> 57)"

definition is_space :: "char \<Rightarrow> bool" where
  \<comment> \<open>the ASCII part of the class \<open>\s\<close>, which is also what \<open>trim\<close> removes\<close>
  "is_space c = ((of_char c :: nat) \<in> {9, 10, 11, 12, 13, 32})"

definition toUpperCase :: "string \<Rightarrow> string" where
  "toUpperCase s =
     map (\<lambda>c. case map_of (zip ''abcdefghijklmnopqrstuvwxyz'' ''ABCDEFGHIJKLMNOPQRSTUVWXYZ'') c of
                Some u \<Rightarrow> u | None \<Rightarrow> c) s"

definition toLowerCase :: "string \<Rightarrow> string" where
  "toLowerCase s =
     map (\<lambda>c. case map_of (zip ''ABCDEFGHIJKLMNOPQRSTUVWXYZ'' ''abcdefghijklmnopqrstuvwxyz'') c of
                Some l \<Rightarrow> l | None \<Rightarrow> c) s"

definition trim :: "string \<Rightarrow> string" where
  "trim s = rev (dropWhile is_space (rev (dropWhile is_space s)))"


subsection \<open>Global replacement with a callback\<close>

text \<open>
  \<open>s.replace(re, f)\<close> for a regular expression with the \<open>g\<close> flag scans \<open>s\<close> from left to
  right. A regular expression is given by what it matches at the head of the remaining
  input: its captured groups and the input left after the match. At the leftmost position
  where it matches, the callback receives the matched text and the groups and returns the
  text put in its place; the scan goes on after the match. The callbacks of the scripts
  write to a dictionary or to the console, so the scan threads a state through them. None
  of the regular expressions of the scripts matches the empty string.
\<close>

function replace_all ::
  "(string \<Rightarrow> ('g \<times> string) option) \<Rightarrow> (string \<Rightarrow> 'g \<Rightarrow> 's \<Rightarrow> string \<times> 's)
     \<Rightarrow> string \<Rightarrow> 's \<Rightarrow> string \<times> 's" where
  "replace_all m cb [] st = ([], st)"
| "replace_all m cb (c # cs) st =
     (case m (c # cs) of
        None \<Rightarrow> (case replace_all m cb cs st of (out, st') \<Rightarrow> (c # out, st'))
      | Some (g, rest) \<Rightarrow>
          if length rest < length (c # cs) then
            (case cb (take (length (c # cs) - length rest) (c # cs)) g st of
               (x, st1) \<Rightarrow> (case replace_all m cb rest st1 of (out, st') \<Rightarrow> (x @ out, st')))
          else (case replace_all m cb cs st of (out, st') \<Rightarrow> (c # out, st')))"
  by pat_completeness auto
termination
  by (relation "measure (\<lambda>(m, cb, s, st). length s)") auto

section \<open>Rendering (build.js)\<close>

subsection \<open>Locale configuration\<close>

datatype locale_code = En | De | Fr | No | Da | Sv

record locale_cfg =
  locale_path :: string
  og_locale :: string
  html_lang :: string
  hreflang :: string
  flag :: string
  lang_name :: string

definition regional :: "nat \<Rightarrow> string" where
  \<comment> \<open>UTF-8 of the regional indicator symbol of the \<open>n\<close>-th letter\<close>
  "regional n = [CHR 0xF0, CHR 0x9F, CHR 0x87, char_of (0xA6 + n)]"

fun LOCALE_CONFIG :: "locale_code \<Rightarrow> locale_cfg" where
  "LOCALE_CONFIG En = \<lparr>locale_path = '''', og_locale = ''en_US'', html_lang = ''en'',
     hreflang = ''en'', flag = regional 6 @ regional 1, lang_name = ''English''\<rparr>"
| "LOCALE_CONFIG De = \<lparr>locale_path = ''de/'', og_locale = ''de_DE'', html_lang = ''de'',
     hreflang = ''de'', flag = regional 3 @ regional 4, lang_name = ''Deutsch''\<rparr>"
| "LOCALE_CONFIG Fr = \<lparr>locale_path = ''fr/'', og_locale = ''fr_FR'', html_lang = ''fr'',
     hreflang = ''fr'', flag = regional 5 @ regional 17,
     lang_name = ''Fran'' @ [CHR 0xC3, CHR 0xA7] @ ''ais''\<rparr>"
| "LOCALE_CONFIG No = \<lparr>locale_path = ''no/'', og_locale = ''nb_NO'', html_lang = ''nb'',
     hreflang = ''nb'', flag = regional 13 @ regional 14, lang_name = ''Norsk''\<rparr>"
| "LOCALE_CONFIG Da = \<lparr>locale_path = ''da/'', og_locale = ''da_DK'', html_lang = ''da'',
     hreflang = ''da'', flag = regional 3 @ regional 10, lang_name = ''Dansk''\<rparr>"
| "LOCALE_CONFIG Sv = \<lparr>locale_path = ''sv/'', og_locale = ''sv_SE'', html_lang = ''sv'',
     hreflang = ''sv'', flag = regional 18 @ regional 4, lang_name = ''Svenska''\<rparr>"





subsection \<open>Structural blocks\<close>










subsection \<open>Sitemap\<close>









subsection \<open>Translation placeholders\<close>

type_synonym section_dict = "string \<rightharpoonup> string"
type_synonym locale_dict = "string \<rightharpoonup> section_dict"

definition is_word_char :: "char \<Rightarrow> bool" where
  \<comment> \<open>\<open>[a-zA-Z0-9_]\<close>\<close>
  "is_word_char c = (is_lower c \<or> is_upper c \<or> is_digit c \<or> c = CHR ''_'')"

definition is_key_char :: "char \<Rightarrow> bool" where
  \<comment> \<open>\<open>[a-zA-Z0-9_&+'"(). -]\<close>\<close>
  "is_key_char c = (is_word_char c \<or> c \<in> {CHR ''&'', CHR ''+'', CHR 0x27, CHR 0x22,
     CHR ''('', CHR '')'', CHR ''.'', CHR '' '', CHR ''-''})"

definition match_placeholder :: "string \<Rightarrow> ((string \<times> string) \<times> string) option" where
  \<comment> \<open>\<open>/\{\{t\.([a-zA-Z0-9_]+)\.([a-zA-Z0-9_&+'"(). -]+)\}\}/\<close> at the head of the input.
     Neither class contains the character that has to follow it, so the greedy runs are
     the only candidates.\<close>
  "match_placeholder s =
     (if startsWith s ''{{t.'' then
        (let r = drop 4 s; sec = takeWhile is_word_char r; r1 = dropWhile is_word_char r in
         if sec \<noteq> [] \<and> startsWith r1 ''.'' then
           (let r2 = drop 1 r1; key = takeWhile is_key_char r2; r3 = dropWhile is_key_char r2 in
            if key \<noteq> [] \<and> startsWith r3 ''}}'' then Some ((sec, key), drop 2 r3) else None)
         else None)
      else None)"

definition lookup :: "locale_dict \<Rightarrow> string \<Rightarrow> string \<Rightarrow> string option" where
  \<comment> \<open>\<open>localeData[section] && localeData[section][key] !== undefined\<close>: a section is an
     object, which is truthy also when it is empty, and a key is found whatever its value\<close>
  "lookup localeData sec key = (case localeData sec of None \<Rightarrow> None | Some d \<Rightarrow> d key)"

definition missing_msg :: "string \<Rightarrow> string \<Rightarrow> string" where
  "missing_msg sec key = ''    Missing: '' @ sec @ ''.'' @ key"

definition resolve :: "locale_dict \<Rightarrow> string \<Rightarrow> (string \<times> string) \<Rightarrow> string list \<Rightarrow> string \<times> string list" where
  \<comment> \<open>the callback of \<open>replaceTranslations\<close>; the state is what \<open>console.warn\<close> has printed\<close>
  "resolve localeData match g warned =
     (case lookup localeData (fst g) (snd g) of
        Some v \<Rightarrow> (v, warned)
      | None \<Rightarrow> (match, warned @ [missing_msg (fst g) (snd g)]))"

definition replaceTranslations :: "string \<Rightarrow> locale_dict \<Rightarrow> string \<Rightarrow> string \<times> string list" where
  "replaceTranslations html localeData pk = replace_all match_placeholder (resolve localeData) html []"

definition placeholder :: "string \<Rightarrow> string \<Rightarrow> string" where
  "placeholder sec key = ''{{t.'' @ sec @ ''.'' @ key @ ''}}''"

definition valid_section :: "string \<Rightarrow> bool" where
  \<comment> \<open>a section name as the placeholder grammar admits it\<close>
  "valid_section sec = (sec \<noteq> [] \<and> list_all is_word_char sec)"

definition valid_key :: "string \<Rightarrow> bool" where
  \<comment> \<open>a key as the placeholder grammar admits it\<close>
  "valid_key key = (key \<noteq> [] \<and> list_all is_key_char key)"

section \<open>Translation refresh (translate.js)\<close>

text \<open>
  The call to the translation service is the only thing \<open>translateSection\<close> does besides
  building the prompt and parsing the answer. It is a parameter here: given the section
  name, the source section and the target locale it yields the translated section, or
  nothing when the answer is not valid JSON.
\<close>

type_synonym translator = "string \<Rightarrow> section_dict \<Rightarrow> locale_code \<Rightarrow> section_dict option"

definition in_TARGET_LOCALES :: "locale_code \<Rightarrow> bool" where
  \<comment> \<open>the keys of \<open>TARGET_LOCALES\<close>: every configured locale but the source locale\<close>
  "in_TARGET_LOCALES loc = (loc \<in> set [De, Fr, No, Da, Sv])"

definition LOCALE_META :: "locale_code \<Rightarrow> section_dict" where
  "LOCALE_META loc =
     [''locale'' \<mapsto> html_lang (LOCALE_CONFIG loc),
      ''locale_path'' \<mapsto> locale_path (LOCALE_CONFIG loc),
      ''og_locale'' \<mapsto> og_locale (LOCALE_CONFIG loc),
      ''html_lang'' \<mapsto> html_lang (LOCALE_CONFIG loc)]
     (''locale'' \<mapsto> (case loc of En \<Rightarrow> ''en'' | De \<Rightarrow> ''de'' | Fr \<Rightarrow> ''fr''
                           | No \<Rightarrow> ''no'' | Da \<Rightarrow> ''da'' | Sv \<Rightarrow> ''sv''))"

definition key_count :: "section_dict \<Rightarrow> nat" where
  \<comment> \<open>\<open>Object.keys(section).length\<close>\<close>
  "key_count d = card (dom d)"

datatype tr_event =
    SectionNotFound string
  | AlreadyTranslated string nat
  | Translating string nat
  | Done
  | Failed
  | UnknownLocale locale_code

record tr_state =
  t_localeData :: locale_dict
  t_translated :: nat
  t_failed :: nat
  t_written :: "locale_dict list"
  t_console :: "tr_event list"

definition fully_translated :: "locale_dict \<Rightarrow> section_dict \<Rightarrow> string \<Rightarrow> bool" where
  \<comment> \<open>\<open>localeData[section] &&
       Object.keys(localeData[section]).length === Object.keys(en[section]).length\<close>\<close>
  "fully_translated ld src sec =
     (case ld sec of None \<Rightarrow> False | Some cur \<Rightarrow> key_count cur = key_count src)"

definition translate_section_step ::
  "translator \<Rightarrow> locale_dict \<Rightarrow> locale_code \<Rightarrow> string \<Rightarrow> tr_state \<Rightarrow> tr_state" where
  \<comment> \<open>one round of \<open>for (const section of sections)\<close> in \<open>main\<close>\<close>
  "translate_section_step tr en loc sec st =
     (case en sec of
        None \<Rightarrow> st\<lparr>t_console := t_console st @ [SectionNotFound sec]\<rparr>
      | Some src \<Rightarrow>
          if fully_translated (t_localeData st) src sec then
            st\<lparr>t_console := t_console st
                   @ [AlreadyTranslated sec (key_count (the (t_localeData st sec)))]\<rparr>
          else
            (let st1 = st\<lparr>t_console := t_console st @ [Translating sec (key_count src)]\<rparr>;
                 st2 = (case tr sec src loc of
                          Some result \<Rightarrow>
                            st1\<lparr>t_localeData := (t_localeData st1)(sec \<mapsto> result),
                                t_translated := t_translated st1 + 1,
                                t_console := t_console st1 @ [Done]\<rparr>
                        | None \<Rightarrow>
                            st1\<lparr>t_failed := t_failed st1 + 1,
                                t_console := t_console st1 @ [Failed]\<rparr>)
             in st2\<lparr>t_written := t_written st2 @ [t_localeData st2]\<rparr>))"

definition translate_locale ::
  "translator \<Rightarrow> locale_dict \<Rightarrow> string list \<Rightarrow> locale_dict option \<Rightarrow> locale_code \<Rightarrow> tr_state" where
  \<comment> \<open>one round of \<open>for (const locale of locales)\<close>; \<open>existing\<close> is the locale file, if there is
     one\<close>
  "translate_locale tr en sections existing loc =
     (let ld0 = (case existing of None \<Rightarrow> Map.empty | Some d \<Rightarrow> d);
          st0 = \<lparr>t_localeData = ld0, t_translated = 0, t_failed = 0, t_written = [], t_console = []\<rparr>
      in if \<not> in_TARGET_LOCALES loc then st0\<lparr>t_console := [UnknownLocale loc]\<rparr>
         else fold (translate_section_step tr en loc) sections
                (st0\<lparr>t_localeData := ld0(''_meta'' \<mapsto> LOCALE_META loc)\<rparr>))"

definition allSections :: "string list \<Rightarrow> string list" where
  \<comment> \<open>\<open>Object.keys(en).filter(k => k !== '_meta')\<close>, given the keys of \<open>en.json\<close>\<close>
  "allSections en_keys = filter (\<lambda>k. k \<noteq> ''_meta'') en_keys"

subsection \<open>The scenario of the specification: twelve source keys, ten translated\<close>

definition scenario_source :: section_dict where
  "scenario_source = [''h1'' \<mapsto> ''a'', ''h2'' \<mapsto> ''b'', ''h2_2'' \<mapsto> ''c'', ''h2_3'' \<mapsto> ''d'',
     ''p'' \<mapsto> ''e'', ''p_2'' \<mapsto> ''f'', ''p_3'' \<mapsto> ''g'', ''p_4'' \<mapsto> ''h'',
     ''p_5'' \<mapsto> ''i'', ''p_6'' \<mapsto> ''j'', ''btn'' \<mapsto> ''k'', ''btn_2'' \<mapsto> ''l'']"

definition scenario_copy :: section_dict where
  "scenario_copy = [''h1'' \<mapsto> ''A'', ''h2'' \<mapsto> ''B'', ''h2_2'' \<mapsto> ''C'', ''h2_3'' \<mapsto> ''D'',
     ''p'' \<mapsto> ''E'', ''p_2'' \<mapsto> ''F'', ''p_3'' \<mapsto> ''G'', ''p_4'' \<mapsto> ''H'',
     ''p_5'' \<mapsto> ''I'', ''old'' \<mapsto> ''J'']"

definition scenario_translator :: translator where
  \<comment> \<open>a translator that answers with every value in upper case\<close>
  "scenario_translator sec src loc = Some (\<lambda>k. map_option toUpperCase (src k))"

definition scenario_state :: "section_dict \<Rightarrow> tr_state" where
  "scenario_state cur = \<lparr>t_localeData = [''home'' \<mapsto> cur], t_translated = 0, t_failed = 0,
     t_written = [], t_console = []\<rparr>"

section \<open>Verification (verify.js)\<close>

subsection \<open>Matching\<close>


fun match_first ::
  "(string \<Rightarrow> ('g \<times> string) option) \<Rightarrow> string \<Rightarrow> (string \<times> string \<times> 'g \<times> string) option" where
  \<comment> \<open>\<open>s.match(re)\<close> without the \<open>g\<close> flag: the text before the leftmost match, the matched
     text, its groups and the text after it\<close>
  "match_first m [] = None"
| "match_first m (c # cs) =
     (case m (c # cs) of
        Some (g, rest) \<Rightarrow>
          Some ([], take (length (c # cs) - length rest) (c # cs), g, rest)
      | None \<Rightarrow>
          (case match_first m cs of
             None \<Rightarrow> None
           | Some (before, mt, g, rest) \<Rightarrow> Some (c # before, mt, g, rest)))"

definition m_lit :: "string \<Rightarrow> string \<Rightarrow> (unit \<times> string) option" where
  \<comment> \<open>a literal\<close>
  "m_lit lit s = (if startsWith s lit then Some ((), drop (length lit) s) else None)"

definition m_delimited :: "string \<Rightarrow> (char \<Rightarrow> bool) \<Rightarrow> bool \<Rightarrow> string \<Rightarrow> string \<Rightarrow> (string \<times> string) option" where
  \<comment> \<open>a literal, a greedy run of a character class (\<open>+\<close> when \<open>nonempty\<close>, else \<open>*\<close>) that is
     captured, and a closing literal that starts with a character outside the class, so
     that no shorter run can match\<close>
  "m_delimited opening cls nonempty closing s =
     (if startsWith s opening then
        (let r = drop (length opening) s; run = takeWhile cls r; r1 = dropWhile cls r in
         if (nonempty \<longrightarrow> run \<noteq> []) \<and> startsWith r1 closing
         then Some (run, drop (length closing) r1) else None)
      else None)"






fun replace_str :: "string \<Rightarrow> string \<Rightarrow> string \<Rightarrow> string" where
  \<comment> \<open>\<open>s.replace(pat, rep)\<close> for a string \<open>pat\<close>: the first occurrence only\<close>
  "replace_str pat rep [] = (if pat = [] then rep else [])"
| "replace_str pat rep (c # cs) =
     (if startsWith (c # cs) pat then rep @ drop (length pat) (c # cs)
      else c # replace_str pat rep cs)"

subsection \<open>The report\<close>












subsection \<open>The checks\<close>

















subsection \<open>A rendered tree whose disclosure page has no no-index directive\<close>







section \<open>Extraction (extract.js)\<close>

subsection \<open>The dictionary under construction\<close>

text \<open>
  The object \<open>locale\<close> of the script has the section \<open>shared\<close> from the start and gets one
  section for each page key. Its entry \<open>_meta\<close> is written to \<open>en.json\<close> and read by no pass;
  it is left out.
\<close>

record ex_state =
  x_shared :: section_dict
  x_pages :: locale_dict

definition empty_state :: ex_state where
  "empty_state = \<lparr>x_shared = Map.empty, x_pages = Map.empty\<rparr>"

definition addString :: "string \<Rightarrow> string \<Rightarrow> string \<Rightarrow> ex_state \<Rightarrow> ex_state" where
  \<comment> \<open>\<open>if (!locale[section]) locale[section] = {}; locale[section][key] = value\<close>\<close>
  "addString sec key v st =
     (if sec = ''shared'' then st\<lparr>x_shared := (x_shared st)(key \<mapsto> v)\<rparr>
      else st\<lparr>x_pages := (x_pages st)
             (sec \<mapsto> (case x_pages st sec of None \<Rightarrow> Map.empty | Some d \<Rightarrow> d)(key \<mapsto> v))\<rparr>)"

definition falsy :: "string option \<Rightarrow> bool" where
  \<comment> \<open>\<open>!x\<close> for a value that is a string or \<open>undefined\<close>\<close>
  "falsy x = (case x of None \<Rightarrow> True | Some v \<Rightarrow> v = [])"

definition addShared :: "string \<Rightarrow> string \<Rightarrow> ex_state \<Rightarrow> ex_state" where
  \<comment> \<open>\<open>if (!locale.shared[key]) locale.shared[key] = value\<close>\<close>
  "addShared key v st =
     (if falsy (x_shared st key) then st\<lparr>x_shared := (x_shared st)(key \<mapsto> v)\<rparr> else st)"

definition t_placeholder :: "string \<Rightarrow> string \<Rightarrow> string" where
  \<comment> \<open>the template literal \<open>{{t.${pk}.${k}}}\<close>\<close>
  "t_placeholder sec key = ''{{t.'' @ sec @ ''.'' @ key @ ''}}''"

function string_of_nat :: "nat \<Rightarrow> string" where
  \<comment> \<open>a counter inside a template literal\<close>
  "string_of_nat n =
     (if n < 10 then [''0123456789'' ! n]
      else string_of_nat (n div 10) @ [''0123456789'' ! (n mod 10)])"
  by pat_completeness auto
termination
  by (relation "measure id") auto

subsection \<open>Structured data\<close>

datatype json =
    JNull
  | JBool bool
  | JNum real
  | JStr string
  | JArr "json list"
  | JObj "(string \<times> json) list"

fun obj_get :: "(string \<times> json) list \<Rightarrow> string \<Rightarrow> json option" where
  \<comment> \<open>\<open>obj[field]\<close>, \<open>None\<close> for \<open>undefined\<close>\<close>
  "obj_get [] k = None"
| "obj_get ((k', v) # fs) k = (if k' = k then Some v else obj_get fs k)"

fun obj_set :: "(string \<times> json) list \<Rightarrow> string \<Rightarrow> json \<Rightarrow> (string \<times> json) list" where
  \<comment> \<open>\<open>obj[field] = v\<close> for a field the object has: the field keeps its place\<close>
  "obj_set [] k v = []"
| "obj_set ((k', v') # fs) k v = (if k' = k then (k', v) # fs else (k', v') # obj_set fs k v)"

fun truthy :: "json \<Rightarrow> bool" where
  "truthy JNull = False"
| "truthy (JBool b) = b"
| "truthy (JNum x) = (x \<noteq> 0)"
| "truthy (JStr s) = (s \<noteq> [])"
| "truthy (JArr xs) = True"
| "truthy (JObj fs) = True"

fun is_object :: "json \<Rightarrow> bool" where
  \<comment> \<open>\<open>typeof val === 'object' && val !== null\<close>\<close>
  "is_object (JArr xs) = True"
| "is_object (JObj fs) = True"
| "is_object j = False"

definition translatableFields :: "string list" where
  "translatableFields =
     [''description'', ''reviewBody'', ''headline'', ''slogan'', ''name'', ''text'', ''award'']"

definition exempt_types :: "string list" where
  "exempt_types = [''Brand'', ''Organization'', ''Person'', ''ImageObject'', ''Rating'',
     ''AggregateRating'', ''AggregateOffer'', ''Offer'', ''EducationalOccupationalCredential'']"

definition is_iso_date :: "string \<Rightarrow> bool" where
  \<comment> \<open>\<open>/^\d{4}-\d{2}-\d{2}$/\<close>\<close>
  "is_iso_date s =
     (length s = 10 \<and> list_all is_digit (take 4 s) \<and> s ! 4 = CHR ''-''
      \<and> list_all is_digit (take 2 (drop 5 s)) \<and> s ! 7 = CHR ''-''
      \<and> list_all is_digit (drop 8 s))"

definition type_exempt :: "(string \<times> json) list \<Rightarrow> bool" where
  \<comment> \<open>\<open>obj['@type'] && [...].includes(obj['@type'])\<close>\<close>
  "type_exempt obj =
     (case obj_get obj ''@type'' of Some (JStr t) \<Rightarrow> t \<in> set exempt_types | _ \<Rightarrow> False)"

definition list_item_with_item :: "(string \<times> json) list \<Rightarrow> bool" where
  \<comment> \<open>\<open>obj['@type'] === 'ListItem' && obj.item\<close>\<close>
  "list_item_with_item obj =
     (obj_get obj ''@type'' = Some (JStr ''ListItem'')
      \<and> (case obj_get obj ''item'' of None \<Rightarrow> False | Some v \<Rightarrow> truthy v))"

type_synonym walk_state = "nat \<times> ex_state"

definition extract_field ::
  "string \<Rightarrow> string \<Rightarrow> string \<Rightarrow> (string \<times> json) list \<times> walk_state
     \<Rightarrow> (string \<times> json) list \<times> walk_state" where
  \<comment> \<open>one round of \<open>for (const field of translatableFields)\<close>; the state is \<open>keyIdx\<close> and the
     dictionary\<close>
  "extract_field pfx pk field ow =
     (case ow of (obj, keyIdx, st) \<Rightarrow>
        (case obj_get obj field of
           Some (JStr s) \<Rightarrow>
             if length s > 10 then
               if startsWith s ''http'' \<or> startsWith s ''https'' then ow
               else if is_iso_date s then ow
               else if str_includes s ''schema.org'' then ow
               else if field = ''name'' \<and> type_exempt obj then ow
               else if field = ''name'' \<and> list_item_with_item obj then ow
               else
                 (let k = pfx @ ''_'' @ field @ ''_'' @ string_of_nat (keyIdx + 1) in
                  (obj_set obj field (JStr (t_placeholder pk k)),
                   keyIdx + 1, addString pk k s st))
             else ow
         | _ \<Rightarrow> ow))"

definition extract_fields ::
  "string \<Rightarrow> string \<Rightarrow> (string \<times> json) list \<times> walk_state \<Rightarrow> (string \<times> json) list \<times> walk_state" where
  "extract_fields pfx pk ow = fold (extract_field pfx pk) translatableFields ow"

fun jsize :: "json \<Rightarrow> nat"
  and jsize_list :: "json list \<Rightarrow> nat"
  and jsize_fields :: "(string \<times> json) list \<Rightarrow> nat" where
  "jsize (JArr xs) = Suc (jsize_list xs)"
| "jsize (JObj fs) = Suc (jsize_fields fs)"
| "jsize j = 0"
| "jsize_list [] = 0"
| "jsize_list (x # xs) = Suc (jsize x + jsize_list xs)"
| "jsize_fields [] = 0"
| "jsize_fields ((k, v) # fs) = Suc (jsize v + jsize_fields fs)"

lemma jsize_obj_set_str [simp]: "jsize_fields (obj_set fs k (JStr s)) \<le> jsize_fields fs"
  by (induction fs k "JStr s" rule: obj_set.induct) auto

lemma jsize_extract_field: "jsize_fields (fst (extract_field pfx pk field (obj, w))) \<le> jsize_fields obj"
  by (cases w) (auto simp: extract_field_def Let_def split: option.splits json.splits)

lemma jsize_fold_extract_field:
  "jsize_fields (fst (fold (extract_field pfx pk) flds (obj, w))) \<le> jsize_fields obj"
proof (induction flds arbitrary: obj w)
  case Nil
  then show ?case by simp
next
  case (Cons f flds)
  obtain obj' w' where e: "extract_field pfx pk f (obj, w) = (obj', w')"
    by (cases "extract_field pfx pk f (obj, w)") auto
  have "jsize_fields obj' \<le> jsize_fields obj"
    using jsize_extract_field [of pfx pk f obj w] e by simp
  moreover have "jsize_fields (fst (fold (extract_field pfx pk) flds (obj', w'))) \<le> jsize_fields obj'"
    by (rule Cons.IH)
  ultimately show ?case using e by simp
qed

function walkAndExtract :: "string \<Rightarrow> string \<Rightarrow> json \<Rightarrow> walk_state \<Rightarrow> json \<times> walk_state"
  and walk_items :: "string \<Rightarrow> string \<Rightarrow> json list \<Rightarrow> walk_state \<Rightarrow> json list \<times> walk_state"
  and walk_values ::
    "string \<Rightarrow> string \<Rightarrow> (string \<times> json) list \<Rightarrow> walk_state \<Rightarrow> (string \<times> json) list \<times> walk_state" where
  "walkAndExtract pfx pk (JArr items) w =
     (case walk_items pfx pk items w of (items', w') \<Rightarrow> (JArr items', w'))"
| "walkAndExtract pfx pk (JObj obj) w =
     (case extract_fields pfx pk (obj, w) of (obj1, w1) \<Rightarrow>
        (case walk_values pfx pk obj1 w1 of (obj2, w2) \<Rightarrow> (JObj obj2, w2)))"
| "walkAndExtract pfx pk JNull w = (JNull, w)"
| "walkAndExtract pfx pk (JBool b) w = (JBool b, w)"
| "walkAndExtract pfx pk (JNum x) w = (JNum x, w)"
| "walkAndExtract pfx pk (JStr s) w = (JStr s, w)"
| "walk_items pfx pk [] w = ([], w)"
| "walk_items pfx pk (x # xs) w =
     (case walkAndExtract pfx pk x w of (x', w1) \<Rightarrow>
        (case walk_items pfx pk xs w1 of (xs', w2) \<Rightarrow> (x' # xs', w2)))"
| "walk_values pfx pk [] w = ([], w)"
| "walk_values pfx pk ((k, v) # fs) w =
     (if is_object v then
        (case walkAndExtract pfx pk v w of (v', w1) \<Rightarrow>
           (case walk_values pfx pk fs w1 of (fs', w2) \<Rightarrow> ((k, v') # fs', w2)))
      else (case walk_values pfx pk fs w of (fs', w2) \<Rightarrow> ((k, v) # fs', w2)))"
  by pat_completeness auto
termination
proof (relation "measure (\<lambda>x. case x of
          Inl (pfx, pk, j, w) \<Rightarrow> jsize j
        | Inr (Inl (pfx, pk, js, w)) \<Rightarrow> jsize_list js
        | Inr (Inr (pfx, pk, fs, w)) \<Rightarrow> jsize_fields fs)", goal_cases)
  case (3 pfx pk obj w x y)
  have "jsize_fields (fst (fold (extract_field pfx pk) translatableFields (obj, w))) \<le> jsize_fields obj"
    by (rule jsize_fold_extract_field)
  with 3 show ?case
    by (auto simp: extract_fields_def split: prod.splits)
qed auto


subsection \<open>Replacing the first match\<close>

definition replace_first ::
  "(string \<Rightarrow> ('g \<times> string) option) \<Rightarrow> (string \<Rightarrow> 'g \<Rightarrow> 's \<Rightarrow> string \<times> 's)
     \<Rightarrow> string \<Rightarrow> 's \<Rightarrow> string \<times> 's" where
  \<comment> \<open>\<open>s.replace(re, f)\<close> for a regular expression without the \<open>g\<close> flag\<close>
  "replace_first m cb s st =
     (case match_first m s of
        None \<Rightarrow> (s, st)
      | Some (before, mt, g, rest) \<Rightarrow>
          (case cb mt g st of (x, st') \<Rightarrow> (before @ x @ rest, st')))"

fun split_at :: "string \<Rightarrow> string \<Rightarrow> (string \<times> string) option" where
  \<comment> \<open>the text before and after the first occurrence of \<open>pat\<close>\<close>
  "split_at pat [] = (if pat = [] then Some ([], []) else None)"
| "split_at pat (c # cs) =
     (if startsWith (c # cs) pat then Some ([], drop (length pat) (c # cs))
      else (case split_at pat cs of None \<Rightarrow> None | Some (b, a) \<Rightarrow> Some (c # b, a)))"

definition m_enclosed :: "string \<Rightarrow> string \<Rightarrow> string \<Rightarrow> (string \<times> string) option" where
  \<comment> \<open>a literal, \<open>([\s\S]*?)\<close> and a closing literal: the group ends at the first occurrence
     of the closing literal\<close>
  "m_enclosed opening closing s =
     (if startsWith s opening then split_at closing (drop (length opening) s) else None)"

subsection \<open>Phase 1: meta tags\<close>

definition not_quote :: "char \<Rightarrow> bool" where
  \<comment> \<open>\<open>[^"]\<close>\<close>
  "not_quote c = (c \<noteq> CHR 0x22)"

definition metaTags :: "(string \<times> string) list" where
  \<comment> \<open>the literal in front of \<open>([^"]*)"\<close> in each pattern, and the key\<close>
  \<open>metaTags =
     [(''<meta name="title" content="'', ''meta_name_title''),
      (''<meta name="description" content="'', ''meta_description''),
      (''<meta name="keywords" content="'', ''meta_keywords''),
      (''<meta property="og:title" content="'', ''og_title''),
      (''<meta property="og:description" content="'', ''og_description''),
      (''<meta name="twitter:title" content="'', ''twitter_title''),
      (''<meta name="twitter:description" content="'', ''twitter_description'')]\<close>

definition extract_title :: "string \<Rightarrow> string \<Rightarrow> ex_state \<Rightarrow> string \<times> ex_state" where
  \<comment> \<open>the replacement of \<open>/<title>([\s\S]*?)<\/title>/\<close>\<close>
  "extract_title pk html st =
     replace_first (m_enclosed ''<title>'' ''</title>'')
       (\<lambda>mt t st. (''<title>'' @ t_placeholder pk ''meta_title'' @ ''</title>'',
                    addString pk ''meta_title'' (trim t) st))
       html st"

definition extract_meta_tag :: "string \<Rightarrow> string \<times> string \<Rightarrow> string \<times> ex_state \<Rightarrow> string \<times> ex_state" where
  \<comment> \<open>one round of \<open>for (const { pattern, key } of metaTags)\<close>\<close>
  \<open>extract_meta_tag pk tag hs =
     (case hs of (html, st) \<Rightarrow>
        replace_first (m_delimited (fst tag) not_quote False [CHR 0x22])
          (\<lambda>mt val st.
             if trim val = [] then (mt, st)
             else (replace_str (''content="'' @ val @ [CHR 0x22])
                     (''content="'' @ t_placeholder pk (snd tag) @ [CHR 0x22]) mt,
                   addString pk (snd tag) val st))
          html st)\<close>

definition extractMeta :: "string \<Rightarrow> string \<Rightarrow> ex_state \<Rightarrow> string \<times> ex_state" where
  "extractMeta html pk st = fold (extract_meta_tag pk) metaTags (extract_title pk html st)"

subsection \<open>Phase 2: structural placeholders\<close>

definition m_meta_url :: "string \<Rightarrow> string \<Rightarrow> (unit \<times> string) option" where
  \<comment> \<open>a literal, then \<open>[^"]*"\s*\/?>\<close>\<close>
  "m_meta_url opening s =
     (case m_delimited opening not_quote False [CHR 0x22] s of
        None \<Rightarrow> None
      | Some (v, r) \<Rightarrow>
          (let r1 = dropWhile is_space r in
           if startsWith r1 ''/>'' then Some ((), drop 2 r1)
           else if startsWith r1 ''>'' then Some ((), drop 1 r1)
           else None))"

definition put :: "string \<Rightarrow> string \<Rightarrow> 'g \<Rightarrow> unit \<Rightarrow> string \<times> unit" where
  \<comment> \<open>a replacement that is a fixed string without \<open>$\<close>\<close>
  "put x mt g u = (x, u)"

definition templateStructural :: "string \<Rightarrow> string" where
  \<open>templateStructural html =
     (let h1 = replace_str ''<html lang="en">'' ''<html lang="{{htmlLang}}">'' html;
          h2 = fst (replace_first (m_delimited ''<link rel="canonical" href="'' not_quote False ''">'')
                 (put (''<link rel="canonical" href="{{canonicalUrl}}">'' @ [CHR 0x0A]
                       @ ''    {{hreflangTags}}'')) h1 ());
          h3 = fst (replace_first (m_meta_url ''<meta property="og:url" content="'')
                 (put ''<meta property="og:url" content="{{pageUrl}}">'') h2 ());
          h4 = fst (replace_first (m_meta_url ''<meta name="twitter:url" content="'')
                 (put ''<meta name="twitter:url" content="{{pageUrl}}">'') h3 ());
          h5 = fst (replace_first (m_meta_url ''<meta property="og:locale" content="'')
                 (put (''<meta property="og:locale" content="{{ogLocale}}">'' @ [CHR 0x0A]
                       @ ''    {{ogLocaleAlternates}}'')) h4 ())
      in h5)\<close>

subsection \<open>Phase 4: navigation\<close>

definition navTexts :: "(string \<times> string) list" where
  "navTexts =
     [(''Reviews'', ''nav_reviews''), (''Compare'', ''nav_compare''),
      (''Discounts'', ''nav_discounts''), (''About'', ''nav_about''),
      (''Comparison'', ''nav_comparison''), (''All Reviews'', ''nav_all_reviews'')]"

definition replace_link_text :: "string \<times> string \<Rightarrow> string \<Rightarrow> string" where
  \<comment> \<open>\<open>content.replace(new RegExp(`>${escRegex(text)}</a>`, 'g'), `>{{t.shared.${key}}}</a>`)\<close>\<close>
  "replace_link_text tk content =
     fst (replace_all (m_lit (''>'' @ fst tk @ ''</a>''))
            (put (''>'' @ t_placeholder ''shared'' (snd tk) @ ''</a>'')) content ())"

definition templateNav :: "string \<Rightarrow> ex_state \<Rightarrow> string \<times> ex_state" where
  \<open>templateNav html st =
     (fst (replace_all (m_enclosed ''<ul class="nav-links">'' ''</ul>'')
             (\<lambda>mt content u.
                (''<ul class="nav-links">'' @ fold replace_link_text navTexts content @ ''</ul>''
                 @ [CHR 0x0A] @ ''        {{langSwitcher}}'', u)) html ()),
      fold (\<lambda>tk. addShared (snd tk) (fst tk)) navTexts st)\<close>

subsection \<open>Phase 8: internal links\<close>

definition static_exts :: "string list" where
  "static_exts = [''css'', ''js'', ''svg'', ''png'', ''jpg'', ''jpeg'', ''webp'', ''json'', ''ico'',
     ''xml'', ''txt'']"

fun has_static_ext :: "string \<Rightarrow> bool" where
  \<comment> \<open>\<open>/\.(css|js|svg|png|jpg|jpeg|webp|json|ico|xml|txt)(\?|$)/.test(p)\<close>\<close>
  "has_static_ext [] = False"
| "has_static_ext (c # cs) =
     (if c = CHR ''.'' \<and> (\<exists>e \<in> set static_exts. cs = e \<or> startsWith cs (e @ ''?'')) then True
      else has_static_ext cs)"

definition skip_link :: "string \<Rightarrow> bool" where
  \<comment> \<open>the four early returns of the callback, on the path \<open>p\<close>\<close>
  "skip_link p =
     (has_static_ext p
      \<or> startsWith p ''/images/'' \<or> startsWith p ''/_vercel/''
      \<or> startsWith p ''/favicon'' \<or> startsWith p ''/apple-touch''
      \<or> str_includes p ''{{'')"

definition m_internal_href :: "string \<Rightarrow> (string \<times> string) option" where
  \<comment> \<open>\<open>/href="(\/[^"]*?)"/\<close>: the group is the path, leading slash included; the lazy run
     ends at the first quote\<close>
  \<open>m_internal_href s =
     (case m_delimited ''href="/'' not_quote False [CHR 0x22] s of
        None \<Rightarrow> None
      | Some (run, rest) \<Rightarrow> Some (CHR ''/'' # run, rest))\<close>

definition rewrite_link :: "string \<Rightarrow> string \<Rightarrow> unit \<Rightarrow> string \<times> unit" where
  \<open>rewrite_link mt p u =
     (if skip_link p then (mt, u)
      else (''href="/{{localePath}}'' @ drop 1 p @ [CHR 0x22], u))\<close>

definition templateInternalLinks :: "string \<Rightarrow> string" where
  "templateInternalLinks html = fst (replace_all m_internal_href rewrite_link html ())"

section \<open>Properties of rendering\<close>


declare replace_all.simps [simp del]

lemma startsWith_append [simp]: "startsWith (p @ s) p"
  by (induction p) auto

lemma startsWith_iff: "startsWith s p \<longleftrightarrow> (\<exists>r. s = p @ r)"
  by (induction s p rule: startsWith.induct) auto

lemma not_word_dot [simp]: "\<not> is_word_char (CHR ''.'')" "\<not> is_word_char (CHR ''{'')" "\<not> is_word_char (CHR ''}'')"
  by (simp_all add: is_word_char_def is_lower_def is_upper_def is_digit_def)

lemma not_key_brace [simp]: "\<not> is_key_char (CHR ''}'')" "\<not> is_key_char (CHR ''{'')"
  by (simp_all add: is_key_char_def is_word_char_def is_lower_def is_upper_def is_digit_def)

lemma takeWhile_stop: "list_all P xs \<Longrightarrow> \<not> P y \<Longrightarrow> takeWhile P (xs @ y # ys) = xs"
  by (induction xs) auto

lemma dropWhile_stop: "list_all P xs \<Longrightarrow> \<not> P y \<Longrightarrow> dropWhile P (xs @ y # ys) = y # ys"
  by (induction xs) auto

lemma match_placeholder_head:
  assumes "valid_section sec" "valid_key key"
  shows "match_placeholder (placeholder sec key @ post) = Some ((sec, key), post)"
  using assms
  by (simp add: match_placeholder_def placeholder_def valid_section_def valid_key_def
      takeWhile_stop dropWhile_stop)

lemma match_placeholder_SomeD:
  assumes "match_placeholder s = Some ((sec, key), rest)"
  shows "s = placeholder sec key @ rest \<and> valid_section sec \<and> valid_key key"
proof -
  from assms obtain r where s: "s = ''{{t.'' @ r"
    by (auto simp: match_placeholder_def startsWith_iff split: if_splits)
  let ?r1 = "dropWhile is_word_char r"
  from assms s obtain r2 where r1: "?r1 = ''.'' @ r2" and sec: "sec = takeWhile is_word_char r" "sec \<noteq> []"
    by (auto simp: match_placeholder_def Let_def startsWith_iff split: if_splits)
  let ?r3 = "dropWhile is_key_char r2"
  from assms s r1 sec have key: "key = takeWhile is_key_char r2" "key \<noteq> []" and r3: "?r3 = ''}}'' @ rest"
    by (auto simp: match_placeholder_def Let_def startsWith_iff split: if_splits)
  have "r = sec @ ?r1" using sec by simp
  moreover have "r2 = key @ ?r3" using key by simp
  ultimately have "s = placeholder sec key @ rest"
    using s r1 r3 by (simp add: placeholder_def)
  moreover have "valid_section sec" using sec
    by (auto simp: valid_section_def list_all_iff dest: set_takeWhileD)
  moreover have "valid_key key" using key
    by (auto simp: valid_key_def list_all_iff dest: set_takeWhileD)
  ultimately show ?thesis by simp
qed

lemma match_placeholder_iff:
  "match_placeholder s = Some ((sec, key), rest) \<longleftrightarrow>
     s = placeholder sec key @ rest \<and> valid_section sec \<and> valid_key key"
  using match_placeholder_SomeD match_placeholder_head by blast


lemma placeholder_shape:
  "valid_section sec \<Longrightarrow> valid_key key \<Longrightarrow>
     \<exists>body. placeholder sec key = CHR ''{'' # CHR ''{'' # CHR ''t'' # body \<and> CHR ''{'' \<notin> set body"
  by (auto simp: placeholder_def valid_section_def valid_key_def list_all_iff)

lemma match_placeholder_extend:
  assumes "p \<noteq> []"
  shows "match_placeholder (p @ CHR ''{'' # CHR ''{'' # t) =
           map_option (\<lambda>(g, r). (g, r @ CHR ''{'' # CHR ''{'' # t)) (match_placeholder p)"
proof (cases "match_placeholder p")
  case (Some a)
  then obtain sec key rest where a: "match_placeholder p = Some ((sec, key), rest)"
    by (cases a) auto
  then have "p = placeholder sec key @ rest" "valid_section sec" "valid_key key"
    by (auto dest: match_placeholder_SomeD)
  then have "match_placeholder (p @ CHR ''{'' # CHR ''{'' # t) = Some ((sec, key), rest @ CHR ''{'' # CHR ''{'' # t)"
    using match_placeholder_head [of sec key "rest @ CHR ''{'' # CHR ''{'' # t"] by simp
  with a show ?thesis by simp
next
  case None
  have "match_placeholder (p @ CHR ''{'' # CHR ''{'' # t) = None"
  proof (rule ccontr)
    assume "match_placeholder (p @ CHR ''{'' # CHR ''{'' # t) \<noteq> None"
    then obtain sec key rest where
      m: "match_placeholder (p @ CHR ''{'' # CHR ''{'' # t) = Some ((sec, key), rest)"
      by auto
    then have eq: "p @ CHR ''{'' # CHR ''{'' # t = placeholder sec key @ rest"
      and v: "valid_section sec" "valid_key key"
      by (auto dest: match_placeholder_SomeD)
    from placeholder_shape [OF v] obtain body where
      ph: "placeholder sec key = CHR ''{'' # CHR ''{'' # CHR ''t'' # body" and nb: "CHR ''{'' \<notin> set body"
      by blast
    from eq obtain us where
      "(p = placeholder sec key @ us \<and> us @ CHR ''{'' # CHR ''{'' # t = rest)
       \<or> (p @ us = placeholder sec key \<and> CHR ''{'' # CHR ''{'' # t = us @ rest)"
      by (auto simp: append_eq_append_conv2)
    then show False
    proof
      assume "p = placeholder sec key @ us \<and> us @ CHR ''{'' # CHR ''{'' # t = rest"
      then have "match_placeholder p = Some ((sec, key), us)"
        using match_placeholder_head [OF v] by simp
      with None show False by simp
    next
      assume a: "p @ us = placeholder sec key \<and> CHR ''{'' # CHR ''{'' # t = us @ rest"
      show False
      proof (cases us)
        case Nil
        with a have "match_placeholder p = Some ((sec, key), [])"
          using match_placeholder_head [OF v, of "[]"] by simp
        with None show False by simp
      next
        case (Cons u us')
        with a have u: "u = CHR ''{''" by simp
        from a Cons u ph have e: "p @ CHR ''{'' # us' = CHR ''{'' # CHR ''{'' # CHR ''t'' # body" by simp
        from assms obtain c p' where p: "p = c # p'" by (cases p) auto
        show False
        proof (cases p')
          case Nil
          with e p have us': "us' = CHR ''t'' # body" by simp
          with a Cons u show False by (cases rest) auto
        next
          case (Cons d p'')
          with e p have "p'' @ CHR ''{'' # us' = CHR ''t'' # body" by simp
          then have "CHR ''{'' \<in> set (CHR ''t'' # body)"
            by (metis in_set_conv_decomp)
          with nb show False by simp
        qed
      qed
    qed
  qed
  with None show ?thesis by simp
qed

lemma replace_all_no_match:
  "m (c # cs) = None \<Longrightarrow>
     replace_all m cb (c # cs) st = (case replace_all m cb cs st of (out, st') \<Rightarrow> (c # out, st'))"
  by (simp add: replace_all.simps)

lemma replace_all_match:
  "m (c # cs) = Some (g, rest) \<Longrightarrow> length rest < length (c # cs) \<Longrightarrow>
     replace_all m cb (c # cs) st =
       (case cb (take (length (c # cs) - length rest) (c # cs)) g st of
          (x, st1) \<Rightarrow> (case replace_all m cb rest st1 of (out, st') \<Rightarrow> (x @ out, st')))"
  by (simp add: replace_all.simps)

lemma resolve_None: "lookup d s k = None \<Longrightarrow> resolve d m (s, k) st = (m, st @ [missing_msg s k])"
  by (simp add: resolve_def)

lemma resolve_Some: "lookup d s k = Some v \<Longrightarrow> resolve d m (s, k) st = (v, st)"
  by (simp add: resolve_def)

lemma render_all_append:
  assumes v: "valid_section sec" "valid_key key"
  shows "replace_all match_placeholder (resolve d) (pre @ placeholder sec key @ post) st =
    (case replace_all match_placeholder (resolve d) pre st of (o1, s1) \<Rightarrow>
     case resolve d (placeholder sec key) (sec, key) s1 of (x, s2) \<Rightarrow>
     case replace_all match_placeholder (resolve d) post s2 of (o2, s3) \<Rightarrow> (o1 @ x @ o2, s3))"
proof (induction pre arbitrary: st rule: length_induct)
  case (1 pre)
  obtain body where ph: "placeholder sec key = CHR ''{'' # CHR ''{'' # CHR ''t'' # body"
    using placeholder_shape [OF v] by blast
  show ?case
  proof (cases pre)
    case Nil
    have m: "match_placeholder (CHR ''{'' # CHR ''{'' # CHR ''t'' # body @ post) = Some ((sec, key), post)"
      using match_placeholder_head [OF v, of post] ph by simp
    have "take (length (placeholder sec key @ post) - length post)
               (placeholder sec key @ post) = placeholder sec key"
      by simp
    then have t: "take (length (CHR ''{'' # CHR ''{'' # CHR ''t'' # body @ post) - length post)
               (CHR ''{'' # CHR ''{'' # CHR ''t'' # body @ post) = placeholder sec key"
      by (simp only: ph append_Cons)
    have len0: "length post < length (CHR ''{'' # CHR ''{'' # CHR ''t'' # body @ post)" by simp
    show ?thesis
      unfolding Nil
      apply (simp only: append_Nil ph append_Cons)
      apply (subst replace_all_match [where m = match_placeholder, OF m len0])
      apply (simp only: t)
      apply (simp add: replace_all.simps(1) ph split: prod.splits)
      done
  next
    case (Cons c cs)
    have ext: "match_placeholder ((c # cs) @ placeholder sec key @ post) =
        map_option (\<lambda>(g, r). (g, r @ placeholder sec key @ post)) (match_placeholder (c # cs))"
      using match_placeholder_extend [of "c # cs" "CHR ''t'' # body @ post"] ph by simp
    show ?thesis
    proof (cases "match_placeholder (c # cs)")
      case None
      with ext have n: "match_placeholder (c # (cs @ placeholder sec key @ post)) = None" by simp
      have ih: "replace_all match_placeholder (resolve d) (cs @ placeholder sec key @ post) st =
        (case replace_all match_placeholder (resolve d) cs st of (o1, s1) \<Rightarrow>
         case resolve d (placeholder sec key) (sec, key) s1 of (x, s2) \<Rightarrow>
         case replace_all match_placeholder (resolve d) post s2 of (o2, s3) \<Rightarrow> (o1 @ x @ o2, s3))"
        using 1 [rule_format, of cs st] Cons by simp
      show ?thesis
        unfolding Cons
        by (simp add: replace_all_no_match [where m = match_placeholder, OF n] replace_all_no_match [where m = match_placeholder, OF None] ih split: prod.splits)
    next
      case (Some a)
      then obtain s' k' rest where a: "match_placeholder (c # cs) = Some ((s', k'), rest)"
        by (cases a) auto
      then have dec: "c # cs = placeholder s' k' @ rest" and v': "valid_section s'" "valid_key k'"
        by (auto dest: match_placeholder_SomeD)
      obtain body' where ph': "placeholder s' k' = CHR ''{'' # CHR ''{'' # CHR ''t'' # body'"
        using placeholder_shape [OF v'] by blast
      have len: "length rest < length (c # cs)"
        using arg_cong [OF dec, of length] ph' by simp
      from ext a have e: "match_placeholder (c # (cs @ placeholder sec key @ post)) =
           Some ((s', k'), rest @ placeholder sec key @ post)" by simp
      have len': "length (rest @ placeholder sec key @ post) < length (c # (cs @ placeholder sec key @ post))"
        using len by simp
      have tk: "take (length (c # (cs @ placeholder sec key @ post)) - length (rest @ placeholder sec key @ post))
                  (c # (cs @ placeholder sec key @ post)) = take (length (c # cs) - length rest) (c # cs)"
        using len by (simp del: take_Suc_Cons add: take_Cons')
      have ih: "\<And>st. replace_all match_placeholder (resolve d) (rest @ placeholder sec key @ post) st =
        (case replace_all match_placeholder (resolve d) rest st of (o1, s1) \<Rightarrow>
         case resolve d (placeholder sec key) (sec, key) s1 of (x, s2) \<Rightarrow>
         case replace_all match_placeholder (resolve d) post s2 of (o2, s3) \<Rightarrow> (o1 @ x @ o2, s3))"
        using 1 [rule_format, of rest] Cons len by simp
      show ?thesis
        unfolding Cons
        apply (simp only: append_Cons)
        apply (subst replace_all_match [where m = match_placeholder, OF e len'])
        apply (subst replace_all_match [where m = match_placeholder, OF a len])
        apply (simp only: tk ih)
        apply (simp split: prod.splits)
        done
    qed
  qed
qed

lemma render_all_state:
  "replace_all match_placeholder (resolve d) s st =
     (fst (replace_all match_placeholder (resolve d) s []),
      st @ snd (replace_all match_placeholder (resolve d) s []))"
proof (induction s arbitrary: st rule: length_induct)
  case (1 s)
  show ?case
  proof (cases s)
    case Nil
    then show ?thesis by (simp add: replace_all.simps)
  next
    case (Cons c cs)
    show ?thesis
    proof (cases "match_placeholder (c # cs)")
      case None
      obtain o1 w1 where r0: "replace_all match_placeholder (resolve d) cs [] = (o1, w1)"
        by (cases "replace_all match_placeholder (resolve d) cs []") auto
      have l: "length cs < length s" using Cons by simp
      have r1: "replace_all match_placeholder (resolve d) cs st = (o1, st @ w1)"
        using 1 [rule_format, OF l, of st] r0 by simp
      show ?thesis unfolding Cons
        by (simp add: replace_all_no_match [where m = match_placeholder, OF None] r0 r1)
    next
      case (Some a)
      then obtain s' k' rest where a: "match_placeholder (c # cs) = Some ((s', k'), rest)"
        by (cases a) auto
      then have dec: "c # cs = placeholder s' k' @ rest" and v': "valid_section s'" "valid_key k'"
        by (auto dest: match_placeholder_SomeD)
      obtain body' where ph': "placeholder s' k' = CHR ''{'' # CHR ''{'' # CHR ''t'' # body'"
        using placeholder_shape [OF v'] by blast
      have len: "length rest < length (c # cs)"
        using arg_cong [OF dec, of length] ph' by simp
      have l: "length rest < length s" using Cons len by simp
      obtain o1 w1 where r0: "replace_all match_placeholder (resolve d) rest [] = (o1, w1)"
        by (cases "replace_all match_placeholder (resolve d) rest []") auto
      have r1: "\<And>st. replace_all match_placeholder (resolve d) rest st = (o1, st @ w1)"
        using 1 [rule_format, OF l] r0 by simp
      show ?thesis unfolding Cons
        by (cases "lookup d s' k'")
           (simp_all add: replace_all_match [where m = match_placeholder, OF a len]
              resolve_None resolve_Some r1 del: length_Cons take_Suc_Cons)
    qed
  qed
qed











lemma replaceTranslations_at:
  assumes "valid_section sec" "valid_key key"
  shows "replaceTranslations (pre @ placeholder sec key @ post) localeData pk =
     (fst (replaceTranslations pre localeData pk)
        @ fst (resolve localeData (placeholder sec key) (sec, key) [])
        @ fst (replaceTranslations post localeData pk),
      snd (replaceTranslations pre localeData pk)
        @ snd (resolve localeData (placeholder sec key) (sec, key) [])
        @ snd (replaceTranslations post localeData pk))"
proof -
  obtain o1 w1 where a: "replace_all match_placeholder (resolve localeData) pre [] = (o1, w1)"
    by (cases "replace_all match_placeholder (resolve localeData) pre []") auto
  obtain o2 w2 where b: "replace_all match_placeholder (resolve localeData) post [] = (o2, w2)"
    by (cases "replace_all match_placeholder (resolve localeData) post []") auto
  have c: "\<And>st. replace_all match_placeholder (resolve localeData) post st = (o2, st @ w2)"
    using render_all_state [of localeData post] b by simp
  show ?thesis
    unfolding replaceTranslations_def render_all_append [OF assms] a
    by (cases "lookup localeData sec key") (simp_all add: resolve_None resolve_Some b c)
qed



text \<open>
  Claim C10. When the pair is present in the dictionary and its value is the empty string,
  the lookup succeeds (the test is \<open>!== undefined\<close>): the placeholder is replaced by nothing
  and no diagnostic is emitted for it.
\<close>

theorem empty_translation_renders_empty:
  assumes "valid_section sec" and "valid_key key"
    and "localeData sec = Some d" and "d key = Some []"
  shows "replaceTranslations (pre @ placeholder sec key @ post) localeData pk =
     (fst (replaceTranslations pre localeData pk) @ fst (replaceTranslations post localeData pk),
      snd (replaceTranslations pre localeData pk) @ snd (replaceTranslations post localeData pk))"
proof -
  from assms(3,4) have "lookup localeData sec key = Some []"
    by (simp add: lookup_def)
  then show ?thesis
    using replaceTranslations_at [OF assms(1,2), of pre post localeData pk]
    by (simp add: resolve_Some)
qed

theorem empty_translation_witness:
  "valid_section ''home'' \<and> valid_key ''h1''
   \<and> [''home'' \<mapsto> [''h1'' \<mapsto> []]] ''home'' = Some [''h1'' \<mapsto> []]
   \<and> [''h1'' \<mapsto> []] ''h1'' = Some []
   \<and> replaceTranslations ''<h1>{{t.home.h1}}</h1>'' [''home'' \<mapsto> [''h1'' \<mapsto> []]] ''home''
      = (''<h1></h1>'', [])"
proof -
  have v: "valid_section ''home''" "valid_key ''h1''"
    by (simp_all add: valid_section_def valid_key_def is_key_char_def is_word_char_def
        is_lower_def is_upper_def is_digit_def)
  have a: "[''home'' \<mapsto> [''h1'' \<mapsto> []]] ''home'' = Some [''h1'' \<mapsto> ([]::string)]" by simp
  have b: "[''h1'' \<mapsto> ([]::string)] ''h1'' = Some []" by simp
  have pre: "replaceTranslations ''<h1>'' [''home'' \<mapsto> [''h1'' \<mapsto> []]] ''home'' = (''<h1>'', [])"
    by code_simp
  have post: "replaceTranslations ''</h1>'' [''home'' \<mapsto> [''h1'' \<mapsto> []]] ''home'' = (''</h1>'', [])"
    by code_simp
  show ?thesis
    using empty_translation_renders_empty [where sec = "''home''" and key = "''h1''"
        and localeData = "[''home'' \<mapsto> [''h1'' \<mapsto> []]]" and d = "[''h1'' \<mapsto> []]"
        and pre = "''<h1>''" and post = "''</h1>''" and pk = "''home''"]
      v a b pre post
    by (simp add: placeholder_def)
qed

section \<open>Properties of the translation refresh\<close>

lemma translate_section_step_skip:
  assumes "en sec = Some src" and "fully_translated (t_localeData st) src sec"
  shows "translate_section_step tr en loc sec st =
           st\<lparr>t_console := t_console st
                  @ [AlreadyTranslated sec (key_count (the (t_localeData st sec)))]\<rparr>"
  using assms by (simp add: translate_section_step_def)

lemma translate_section_step_written:
  assumes "en sec = Some src" and "\<not> fully_translated (t_localeData st) src sec"
  shows "length (t_written (translate_section_step tr en loc sec st)) = Suc (length (t_written st))"
  using assms by (simp add: translate_section_step_def Let_def split: option.splits)

text \<open>
  Claim C4. For a scope of the source dictionary, the step leaves the locale data, the
  counters and the locale file alone exactly when the locale has the section with as many
  keys as the source section. Otherwise the translator is given the whole source section;
  its result becomes the section, whatever the section held before, and the other sections
  stay as they were; when it fails the locale data is unchanged. Either way the file is
  written once more.
\<close>

theorem translate_skip_iff_key_count:
  assumes "en sec = Some src"
  shows "(t_written (translate_section_step tr en loc sec st) = t_written st
            \<longleftrightarrow> (\<exists>cur. t_localeData st sec = Some cur \<and> key_count cur = key_count src))
    \<and> ((\<exists>cur. t_localeData st sec = Some cur \<and> key_count cur = key_count src) \<longrightarrow>
          t_localeData (translate_section_step tr en loc sec st) = t_localeData st
          \<and> t_translated (translate_section_step tr en loc sec st) = t_translated st
          \<and> t_failed (translate_section_step tr en loc sec st) = t_failed st)
    \<and> (\<not> (\<exists>cur. t_localeData st sec = Some cur \<and> key_count cur = key_count src) \<longrightarrow>
          (case tr sec src loc of
             Some result \<Rightarrow>
               t_localeData (translate_section_step tr en loc sec st) = (t_localeData st)(sec \<mapsto> result)
               \<and> t_translated (translate_section_step tr en loc sec st) = t_translated st + 1
           | None \<Rightarrow>
               t_localeData (translate_section_step tr en loc sec st) = t_localeData st
               \<and> t_failed (translate_section_step tr en loc sec st) = t_failed st + 1)
          \<and> t_written (translate_section_step tr en loc sec st)
              = t_written st @ [t_localeData (translate_section_step tr en loc sec st)])"
proof -
  have c: "fully_translated (t_localeData st) src sec
      \<longleftrightarrow> (\<exists>cur. t_localeData st sec = Some cur \<and> key_count cur = key_count src)"
    by (auto simp: fully_translated_def split: option.splits)
  show ?thesis
  proof (cases "fully_translated (t_localeData st) src sec")
    case True
    then show ?thesis
      using c assms by (simp add: translate_section_step_skip [where src = src])
  next
    case False
    have "length (t_written (translate_section_step tr en loc sec st)) \<noteq> length (t_written st)"
      using assms False by (simp add: translate_section_step_written [where src = src])
    then have "t_written (translate_section_step tr en loc sec st) \<noteq> t_written st"
      by metis
    then show ?thesis
      using c False assms
      by (simp add: translate_section_step_def Let_def split: option.splits)
  qed
qed

lemma key_count_scenario: "key_count scenario_source = 12" "key_count scenario_copy = 10"
  by (simp_all add: key_count_def scenario_source_def scenario_copy_def)

theorem translate_skip_witness:
  "[''home'' \<mapsto> scenario_source] ''home'' = Some scenario_source
   \<and> key_count scenario_source = 12 \<and> key_count scenario_copy = 10
   \<and> t_localeData (translate_section_step scenario_translator [''home'' \<mapsto> scenario_source]
         De ''home'' (scenario_state scenario_copy))
       = [''home'' \<mapsto> (\<lambda>k. map_option toUpperCase (scenario_source k))]
   \<and> t_written (translate_section_step scenario_translator [''home'' \<mapsto> scenario_source]
         De ''home'' (scenario_state scenario_copy))
       = [[''home'' \<mapsto> (\<lambda>k. map_option toUpperCase (scenario_source k))]]
   \<and> t_localeData (translate_section_step scenario_translator [''home'' \<mapsto> scenario_source]
         De ''home'' (scenario_state (\<lambda>k. map_option toUpperCase (scenario_source k))))
       = [''home'' \<mapsto> (\<lambda>k. map_option toUpperCase (scenario_source k))]
   \<and> t_written (translate_section_step scenario_translator [''home'' \<mapsto> scenario_source]
         De ''home'' (scenario_state (\<lambda>k. map_option toUpperCase (scenario_source k))))
       = []"
proof -
  have e: "[''home'' \<mapsto> scenario_source] ''home'' = Some scenario_source" by simp
  have d: "dom (\<lambda>k. map_option toUpperCase (scenario_source k)) = dom scenario_source"
    by (auto simp: dom_def)
  have k: "key_count (\<lambda>k. map_option toUpperCase (scenario_source k)) = 12"
    using key_count_scenario(1) by (simp add: key_count_def d)
  show ?thesis
    using translate_skip_iff_key_count [where en = "[''home'' \<mapsto> scenario_source]"
        and sec = "''home''" and src = scenario_source and tr = scenario_translator and loc = De
        and st = "scenario_state scenario_copy"]
      translate_skip_iff_key_count [where en = "[''home'' \<mapsto> scenario_source]"
        and sec = "''home''" and src = scenario_source and tr = scenario_translator and loc = De
        and st = "scenario_state (\<lambda>k. map_option toUpperCase (scenario_source k))"]
      e k key_count_scenario
    by (simp add: scenario_state_def scenario_translator_def)
qed

section \<open>Properties of verification\<close>















subsection \<open>The checks on the tree without the directive\<close>




















section \<open>Properties of extraction\<close>

subsection \<open>Structured data\<close>






subsection \<open>Meta tags\<close>

lemma extract_meta_tag_blank:
  assumes "match_first (m_delimited (fst tag) not_quote False [CHR 0x22]) html = Some (before, mt, val, rest)"
    and "trim val = []"
  shows "extract_meta_tag pk tag (html, st) = (before @ mt @ rest, st)"
  using assms by (simp add: extract_meta_tag_def replace_first_def)

text \<open>
  Claim C6 holds for the seven meta tags, whose callback returns the match unchanged when
  the value is blank, and fails for the title, whose callback has no such test: a title of
  one space is replaced by the placeholder and stored as the empty string.
\<close>

theorem blank_title_is_stored_empty:
  "extractMeta ''<title> </title>'' ''home'' empty_state =
     (''<title>{{t.home.meta_title}}</title>'',
      \<lparr>x_shared = Map.empty, x_pages = [''home'' \<mapsto> [''meta_title'' \<mapsto> []]]\<rparr>)"
  by (simp add: extractMeta_def extract_title_def extract_meta_tag_def metaTags_def
      replace_first_def m_enclosed_def m_delimited_def trim_def is_space_def t_placeholder_def
      addString_def empty_state_def)

subsection \<open>Shared strings\<close>

lemma addShared_nonempty:
  assumes "x_shared st key = Some v" and "v \<noteq> []"
  shows "addShared key v' st = st"
  using assms by (simp add: addShared_def falsy_def)

lemma addShared_other: "k \<noteq> key \<Longrightarrow> x_shared (addShared k v' st) key = x_shared st key"
  by (simp add: addShared_def)

text \<open>
  Claim C9, as stated, fails for a shared key whose first text is empty: \<open>addShared\<close> tests
  the stored value for truthiness, so the empty string counts as no value and the next text
  replaces it.
\<close>

theorem empty_shared_value_is_overwritten_counterexample:
  "x_shared (addShared ''region_discount_text'' [] empty_state) ''region_discount_text'' = Some []
   \<and> x_shared (addShared ''region_discount_text'' ''Save 10%''
                 (addShared ''region_discount_text'' [] empty_state)) ''region_discount_text''
       = Some ''Save 10%''"
  by (simp add: addShared_def falsy_def empty_state_def)

text \<open>
  Claim C9, amended. Once a shared key has a non-empty value, an attempt to add the key
  again leaves the whole dictionary as it is, and so does any sequence of such attempts
  on any keys: the value of the key stays what it was.
\<close>

theorem shared_first_nonempty_wins:
  assumes "x_shared st key = Some v" and "v \<noteq> []"
  shows "addShared key v' st = st
     \<and> x_shared (fold (\<lambda>kv. addShared (fst kv) (snd kv)) adds st) key = Some v"
proof -
  have "x_shared (fold (\<lambda>kv. addShared (fst kv) (snd kv)) adds st) key = Some v"
    using assms
  proof (induction adds arbitrary: st)
    case Nil
    then show ?case by simp
  next
    case (Cons a adds)
    have "x_shared (addShared (fst a) (snd a) st) key = Some v"
    proof (cases "fst a = key")
      case True
      then show ?thesis
        using Cons.prems addShared_nonempty [of st key v "snd a"] by simp
    next
      case False
      then show ?thesis using Cons.prems by (simp add: addShared_other)
    qed
    then show ?case using Cons.IH Cons.prems(2) by simp
  qed
  then show ?thesis using assms by (simp add: addShared_nonempty)
qed

theorem shared_first_nonempty_wins_witness:
  "x_shared (addShared ''th_price'' ''Price'' empty_state) ''th_price'' = Some ''Price''
   \<and> ''Price'' \<noteq> []
   \<and> addShared ''th_price'' ''PRICE'' (addShared ''th_price'' ''Price'' empty_state)
       = addShared ''th_price'' ''Price'' empty_state
   \<and> x_shared (fold (\<lambda>kv. addShared (fst kv) (snd kv))
        [(''th_price'', ''PRICE''), (''th_score'', ''Score''), (''th_price'', ''price'')]
        (addShared ''th_price'' ''Price'' empty_state)) ''th_price'' = Some ''Price''"
proof -
  have a: "x_shared (addShared ''th_price'' ''Price'' empty_state) ''th_price'' = Some ''Price''"
    by (simp add: addShared_def falsy_def empty_state_def)
  have b: "''Price'' \<noteq> []" by simp
  from shared_first_nonempty_wins [OF a b, of "''PRICE''"
        "[(''th_price'', ''PRICE''), (''th_score'', ''Score''), (''th_price'', ''price'')]"]
  have c: "addShared ''th_price'' ''PRICE'' (addShared ''th_price'' ''Price'' empty_state)
       = addShared ''th_price'' ''Price'' empty_state"
    and d: "x_shared (fold (\<lambda>kv. addShared (fst kv) (snd kv))
        [(''th_price'', ''PRICE''), (''th_score'', ''Score''), (''th_price'', ''price'')]
        (addShared ''th_price'' ''Price'' empty_state)) ''th_price'' = Some ''Price''"
    by blast+
  from a b c d show ?thesis by blast
qed

end
